theory Spec2Isabelle
  imports Main "HOL-Library.Multiset"
begin

section \<open>Data model of transaction.js\<close>

text \<open>
  Transaction ids, addresses, public keys and signatures are JavaScript strings.
\<close>

type_synonym digest = string
type_synonym addr = string
type_synonym public_key = string
type_synonym signature = string

text \<open>
  Amounts are JavaScript numbers, that is IEEE doubles. The data model asks for
  integers, so a number is here an integer-valued double \<open>Num n\<close>, an infinity
  or NaN; fractions are outside the type. A double holds every integer up to
  \<open>2^53\<close> in absolute value, and beyond that only the integers with 53
  significant bits.
\<close>

datatype js_number = Num int | PosInfinity | NegInfinity | NaN

text \<open>The number of binary digits of a positive integer.\<close>

function bit_length :: "int \<Rightarrow> nat" where
  "bit_length x = (if x \<le> 0 then 0 else Suc (bit_length (x div 2)))"
  by pat_completeness auto
termination
  by (relation "measure nat") auto

declare bit_length.simps [simp del]

text \<open>
  The double nearest to an integer: the integer itself up to \<open>2^53\<close>; beyond,
  the integer rounded to 53 significant bits, a tie going to the even
  significand; an infinity from \<open>2^1024\<close> on.
\<close>

definition round_to_double :: "int \<Rightarrow> js_number" where
  "round_to_double x =
     (if \<bar>x\<bar> \<le> 2 ^ 53 then Num x
      else
        (let e = bit_length \<bar>x\<bar> - 53;
             q = \<bar>x\<bar> div 2 ^ e;
             r = \<bar>x\<bar> mod 2 ^ e;
             q' = (if 2 ^ e < 2 * r \<or> (2 * r = 2 ^ e \<and> odd q) then q + 1 else q);
             v = q' * 2 ^ e
         in if 2 ^ 1024 \<le> v then (if 0 < x then PosInfinity else NegInfinity)
            else Num (if 0 < x then v else - v)))"

text \<open>
  The operator \<^verbatim>\<open>+\<close> on two numbers: the exact sum of two doubles, rounded to
  the nearest double.
\<close>

fun js_add :: "js_number \<Rightarrow> js_number \<Rightarrow> js_number" where
  "js_add NaN y = NaN"
| "js_add x NaN = NaN"
| "js_add PosInfinity NegInfinity = NaN"
| "js_add NegInfinity PosInfinity = NaN"
| "js_add PosInfinity y = PosInfinity"
| "js_add x PosInfinity = PosInfinity"
| "js_add NegInfinity y = NegInfinity"
| "js_add x NegInfinity = NegInfinity"
| "js_add (Num a) (Num b) = round_to_double (a + b)"

declare js_add.simps [simp del]

text \<open>An output is the object \<^verbatim>\<open>{amount, address}\<close>.\<close>

record tx_output =
  amount :: js_number
  address :: addr

text \<open>An input is the object \<^verbatim>\<open>{txID, outputIndex, pubKey, sig}\<close>.\<close>

record tx_input =
  txID :: digest
  outputIndex :: nat
  pubKey :: public_key
  sig :: signature

text \<open>
  The contents of a \<^verbatim>\<open>Transaction\<close> object: what its fields hold at one moment.
  The methods that only read (\<^verbatim>\<open>spendOutput\<close>, \<^verbatim>\<open>isValid\<close>,
  \<^verbatim>\<open>totalOutput\<close>) are functions of the contents. The field \<^verbatim>\<open>id\<close> of the
  source is called \<open>id_tx\<close> here, since \<open>id\<close> is the identity function of HOL.
\<close>

record transaction =
  inputs :: "tx_input list"
  outputs :: "tx_output list"
  id_tx :: digest

text \<open>
  The \<^verbatim>\<open>utxos\<close> argument of \<^verbatim>\<open>isValid\<close> is an object whose keys are transaction
  ids and whose values are arrays of outputs. It is modelled by the list of its
  entries \<open>(key, utxos[key])\<close> in the enumeration order of \<^verbatim>\<open>for ... in\<close>.
\<close>

type_synonym utxo_index = "(digest \<times> tx_output list) list"

text \<open>
  The ways a method can fail. The three \<^verbatim>\<open>throw new Error(...)\<close> statements of
  \<^verbatim>\<open>spendOutput\<close> are tagged \<open>ReferenceMismatch\<close>, \<open>AddressMismatch\<close> and
  \<open>InvalidSignature\<close>, in the order of the source. \<open>TypeError\<close> is the error the
  JavaScript runtime raises when a property of \<^verbatim>\<open>undefined\<close> is read or
  destructured. \<open>IndexOutOfRange\<close> is the kind the specification names for an index
  outside the outputs array; no statement of the source raises it.
\<close>

datatype error =
  ReferenceMismatch
| IndexOutOfRange
| AddressMismatch
| InvalidSignature
| TypeError

text \<open>
  Indexing a JavaScript array: an index outside the array yields
  \<^verbatim>\<open>undefined\<close>, modelled by \<open>None\<close>.
\<close>

definition js_index :: "'a list \<Rightarrow> nat \<Rightarrow> 'a option" where
  "js_index xs i = (if i < length xs then Some (xs ! i) else None)"

section \<open>Objects in memory\<close>




section \<open>The methods of class Transaction\<close>


text \<open>\<^verbatim>\<open>spendOutput(input)\<close>: the amount of the output, or the error thrown.\<close>

definition spendOutput ::
  "(public_key \<Rightarrow> addr) \<Rightarrow> (public_key \<Rightarrow> tx_output \<Rightarrow> signature \<Rightarrow> bool) \<Rightarrow>
   transaction \<Rightarrow> tx_input \<Rightarrow> error + js_number" where
  "spendOutput calcAddress verifySignature this inp =
     (if txID inp \<noteq> id_tx this then Inl ReferenceMismatch
      else
        (case js_index (outputs this) (outputIndex inp) of
           None \<Rightarrow> Inl TypeError
         | Some out \<Rightarrow>
             if calcAddress (pubKey inp) \<noteq> address out then Inl AddressMismatch
             else if \<not> verifySignature (pubKey inp) out (sig inp) then Inl InvalidSignature
             else Inr (amount out)))"

text \<open>
  \<^verbatim>\<open>isValid(utxos)\<close>: three nested loops over the inputs, the keys of
  \<^verbatim>\<open>utxos\<close> and the outputs stored under each key, all updating the one flag
  \<^verbatim>\<open>found\<close>. Each loop is a recursive function that threads the flag.
\<close>

fun isValid_objs ::
  "(public_key \<Rightarrow> tx_output \<Rightarrow> signature \<Rightarrow> bool) \<Rightarrow> tx_input \<Rightarrow> tx_output list \<Rightarrow> bool \<Rightarrow> bool" where
  "isValid_objs verifySignature inp [] found = found"
| "isValid_objs verifySignature inp (obj # objs) found =
     isValid_objs verifySignature inp objs
       (if verifySignature (pubKey inp) obj (sig inp) then True else found)"

fun isValid_utxos ::
  "(public_key \<Rightarrow> tx_output \<Rightarrow> signature \<Rightarrow> bool) \<Rightarrow> tx_input \<Rightarrow> utxo_index \<Rightarrow> bool \<Rightarrow> bool" where
  "isValid_utxos verifySignature inp [] found = found"
| "isValid_utxos verifySignature inp ((utxo, objs) # rest) found =
     isValid_utxos verifySignature inp rest (isValid_objs verifySignature inp objs found)"

fun isValid_inputs ::
  "(public_key \<Rightarrow> tx_output \<Rightarrow> signature \<Rightarrow> bool) \<Rightarrow> utxo_index \<Rightarrow> tx_input list \<Rightarrow> bool \<Rightarrow> bool" where
  "isValid_inputs verifySignature utxos [] found = found"
| "isValid_inputs verifySignature utxos (inp # rest) found =
     isValid_inputs verifySignature utxos rest (isValid_utxos verifySignature inp utxos found)"

definition isValid ::
  "(public_key \<Rightarrow> tx_output \<Rightarrow> signature \<Rightarrow> bool) \<Rightarrow> transaction \<Rightarrow> utxo_index \<Rightarrow> bool" where
  "isValid verifySignature this utxos =
     isValid_inputs verifySignature utxos (inputs this) False"


text \<open>
  \<^verbatim>\<open>totalOutput()\<close>: \<^verbatim>\<open>reduce\<close> from the left, starting at 0, each step a
  rounded sum.
\<close>

definition totalOutput :: "transaction \<Rightarrow> js_number" where
  "totalOutput this = foldl (\<lambda>acc out. js_add acc (amount out)) (Num 0) (outputs this)"

section \<open>Amounts of the data model\<close>




section \<open>Deterministic stand-ins for utils.js and JSON.stringify\<close>

text \<open>
  Concrete functions for the parameters, used only to evaluate the methods on
  concrete transactions: the address of a key is the key with a prefix, a
  signature by a key on an output is a string naming the key and the output's
  address, and the hash wraps its argument. The serialisation writes the text
  \<^verbatim>\<open>JSON.stringify\<close> gives when no string needs an escape and every number
  is an integer below \<open>10^21\<close>: each object with its properties in creation
  order.
\<close>

definition demo_calcAddress :: "public_key \<Rightarrow> addr" where
  "demo_calcAddress k = ''addr:'' @ k"

definition demo_verifySignature :: "public_key \<Rightarrow> tx_output \<Rightarrow> signature \<Rightarrow> bool" where
  "demo_verifySignature k out s = (s = ''sig:'' @ k @ '':'' @ address out)"












section \<open>Facts about the loops of isValid\<close>

lemma isValid_objs_iff:
  "isValid_objs vs inp objs found =
     (found \<or> (\<exists>obj \<in> set objs. vs (pubKey inp) obj (sig inp)))"
  by (induction vs inp objs found rule: isValid_objs.induct) auto

lemma isValid_utxos_iff:
  "isValid_utxos vs inp utxos found =
     (found \<or> (\<exists>obj \<in> set (concat (map snd utxos)). vs (pubKey inp) obj (sig inp)))"
  by (induction vs inp utxos found rule: isValid_utxos.induct)
     (auto simp: isValid_objs_iff)

lemma isValid_inputs_iff:
  "isValid_inputs vs utxos ins found =
     (found \<or> (\<exists>inp \<in> set ins. \<exists>obj \<in> set (concat (map snd utxos)).
        vs (pubKey inp) obj (sig inp)))"
  by (induction vs utxos ins found rule: isValid_inputs.induct)
     (auto simp: isValid_utxos_iff)

lemma isValid_iff:
  "isValid vs this utxos =
     (\<exists>inp \<in> set (inputs this). \<exists>obj \<in> set (concat (map snd utxos)).
        vs (pubKey inp) obj (sig inp))"
  by (simp add: isValid_def isValid_inputs_iff)

section \<open>Facts about numbers and totalOutput\<close>


lemma js_add_exact:
  "0 \<le> a \<Longrightarrow> 0 \<le> b \<Longrightarrow> a + b \<le> 2 ^ 53 \<Longrightarrow> js_add (Num a) (Num b) = Num (a + b)"
  by (simp add: js_add.simps round_to_double_def)







section \<open>Claims\<close>

text \<open>
  C4. A transaction whose inputs sequence is empty is rejected by \<open>isValid\<close>, for
  every UTXO index: the loop over the inputs never runs and the flag keeps its
  initial value \<^verbatim>\<open>false\<close>.
\<close>

theorem isValid_empty_inputs:
  "inputs this = [] \<Longrightarrow> isValid verifySignature this utxos = False"
  by (simp add: isValid_def)

theorem isValid_empty_inputs_witness:
  "inputs \<lparr>inputs = [], outputs = [\<lparr>amount = Num 25, address = ''addr:K''\<rparr>], id_tx = ''T0''\<rparr> = []
   \<and> isValid demo_verifySignature
        \<lparr>inputs = [], outputs = [\<lparr>amount = Num 25, address = ''addr:K''\<rparr>], id_tx = ''T0''\<rparr>
        [(''T1'', [\<lparr>amount = Num 30, address = ''addr:K''\<rparr>])] = False"
  using isValid_empty_inputs
    [of "\<lparr>inputs = [], outputs = [\<lparr>amount = Num 25, address = ''addr:K''\<rparr>], id_tx = ''T0''\<rparr>"
        demo_verifySignature "[(''T1'', [\<lparr>amount = Num 30, address = ''addr:K''\<rparr>])]"]
  by simp

text \<open>
  C6. When the input's \<open>txID\<close> differs from the transaction's own id,
  \<open>spendOutput\<close> fails with \<open>ReferenceMismatch\<close>, whatever the output index, the
  address function and the signature check say.
\<close>

theorem spendOutput_ReferenceMismatch:
  "txID inp \<noteq> id_tx this \<Longrightarrow>
   spendOutput calcAddress verifySignature this inp = Inl ReferenceMismatch"
  by (simp add: spendOutput_def)

theorem spendOutput_ReferenceMismatch_witness:
  "txID \<lparr>txID = ''T9'', outputIndex = 0, pubKey = ''K'', sig = ''sig:K:addr:K''\<rparr>
     \<noteq> id_tx \<lparr>inputs = [], outputs = [\<lparr>amount = Num 30, address = ''addr:K''\<rparr>], id_tx = ''T1''\<rparr>
   \<and> spendOutput demo_calcAddress demo_verifySignature
        \<lparr>inputs = [], outputs = [\<lparr>amount = Num 30, address = ''addr:K''\<rparr>], id_tx = ''T1''\<rparr>
        \<lparr>txID = ''T9'', outputIndex = 0, pubKey = ''K'', sig = ''sig:K:addr:K''\<rparr>
      = Inl ReferenceMismatch"
  using spendOutput_ReferenceMismatch
    [of "\<lparr>txID = ''T9'', outputIndex = 0, pubKey = ''K'', sig = ''sig:K:addr:K''\<rparr>"
        "\<lparr>inputs = [], outputs = [\<lparr>amount = Num 30, address = ''addr:K''\<rparr>], id_tx = ''T1''\<rparr>"
        demo_calcAddress demo_verifySignature]
  by simp

text \<open>
  C7. For an input whose \<open>txID\<close> is the transaction's id and whose \<open>outputIndex\<close>
  is inside the outputs array, with \<open>out\<close> the output at that index, the checks
  of \<open>spendOutput\<close> run in the order of the source: it fails with
  \<open>AddressMismatch\<close> when \<open>calcAddress (pubKey inp)\<close> differs from the output's
  address; otherwise it fails with \<open>InvalidSignature\<close> when
  \<open>verifySignature (pubKey inp) out (sig inp)\<close> is false; otherwise it returns the
  output's amount.
\<close>

theorem spendOutput_checks:
  "txID inp = id_tx this \<Longrightarrow> outputIndex inp < length (outputs this) \<Longrightarrow>
   out = outputs this ! outputIndex inp \<Longrightarrow>
   (calcAddress (pubKey inp) \<noteq> address out \<longrightarrow>
      spendOutput calcAddress verifySignature this inp = Inl AddressMismatch) \<and>
   (calcAddress (pubKey inp) = address out \<and> \<not> verifySignature (pubKey inp) out (sig inp) \<longrightarrow>
      spendOutput calcAddress verifySignature this inp = Inl InvalidSignature) \<and>
   (calcAddress (pubKey inp) = address out \<and> verifySignature (pubKey inp) out (sig inp) \<longrightarrow>
      spendOutput calcAddress verifySignature this inp = Inr (amount out))"
  by (simp add: spendOutput_def js_index_def)

theorem spendOutput_checks_witness:
  "spendOutput demo_calcAddress demo_verifySignature
     \<lparr>inputs = [], outputs = [\<lparr>amount = Num 30, address = ''addr:K''\<rparr>], id_tx = ''T1''\<rparr>
     \<lparr>txID = ''T1'', outputIndex = 0, pubKey = ''L'', sig = ''sig:L:addr:K''\<rparr>
     = Inl AddressMismatch
   \<and> spendOutput demo_calcAddress demo_verifySignature
     \<lparr>inputs = [], outputs = [\<lparr>amount = Num 30, address = ''addr:K''\<rparr>], id_tx = ''T1''\<rparr>
     \<lparr>txID = ''T1'', outputIndex = 0, pubKey = ''K'', sig = ''forged''\<rparr>
     = Inl InvalidSignature
   \<and> spendOutput demo_calcAddress demo_verifySignature
     \<lparr>inputs = [], outputs = [\<lparr>amount = Num 30, address = ''addr:K''\<rparr>], id_tx = ''T1''\<rparr>
     \<lparr>txID = ''T1'', outputIndex = 0, pubKey = ''K'', sig = ''sig:K:addr:K''\<rparr>
     = Inr (Num 30)"
  using
    spendOutput_checks
      [of "\<lparr>txID = ''T1'', outputIndex = 0, pubKey = ''L'', sig = ''sig:L:addr:K''\<rparr>"
          "\<lparr>inputs = [], outputs = [\<lparr>amount = Num 30, address = ''addr:K''\<rparr>], id_tx = ''T1''\<rparr>"
          "\<lparr>amount = Num 30, address = ''addr:K''\<rparr>" demo_calcAddress demo_verifySignature]
    spendOutput_checks
      [of "\<lparr>txID = ''T1'', outputIndex = 0, pubKey = ''K'', sig = ''forged''\<rparr>"
          "\<lparr>inputs = [], outputs = [\<lparr>amount = Num 30, address = ''addr:K''\<rparr>], id_tx = ''T1''\<rparr>"
          "\<lparr>amount = Num 30, address = ''addr:K''\<rparr>" demo_calcAddress demo_verifySignature]
    spendOutput_checks
      [of "\<lparr>txID = ''T1'', outputIndex = 0, pubKey = ''K'', sig = ''sig:K:addr:K''\<rparr>"
          "\<lparr>inputs = [], outputs = [\<lparr>amount = Num 30, address = ''addr:K''\<rparr>], id_tx = ''T1''\<rparr>"
          "\<lparr>amount = Num 30, address = ''addr:K''\<rparr>" demo_calcAddress demo_verifySignature]
  by (simp add: demo_calcAddress_def demo_verifySignature_def)

text \<open>
  C5. The claim as written: for an input whose \<open>txID\<close> is the transaction's id and
  whose \<open>outputIndex\<close> is outside the outputs array, \<open>spendOutput\<close> fails with
  \<open>IndexOutOfRange\<close>. The source has no range check: \<^verbatim>\<open>this.outputs[outputIndex]\<close>
  is \<^verbatim>\<open>undefined\<close> and destructuring it raises the runtime's TypeError. With one
  output and index 1 the result is \<open>TypeError\<close>, not \<open>IndexOutOfRange\<close>.
\<close>

theorem spendOutput_out_of_range_counterexample:
  "spendOutput demo_calcAddress demo_verifySignature
     \<lparr>inputs = [], outputs = [\<lparr>amount = Num 30, address = ''addr:K''\<rparr>], id_tx = ''T1''\<rparr>
     \<lparr>txID = ''T1'', outputIndex = 1, pubKey = ''K'', sig = ''sig:K:addr:K''\<rparr>
     = Inl TypeError
   \<and> spendOutput demo_calcAddress demo_verifySignature
     \<lparr>inputs = [], outputs = [\<lparr>amount = Num 30, address = ''addr:K''\<rparr>], id_tx = ''T1''\<rparr>
     \<lparr>txID = ''T1'', outputIndex = 1, pubKey = ''K'', sig = ''sig:K:addr:K''\<rparr>
     \<noteq> Inl IndexOutOfRange"
  by (simp add: spendOutput_def js_index_def)

text \<open>
  C5, amended. For an input whose \<open>txID\<close> is the transaction's id and whose
  \<open>outputIndex\<close> is outside the outputs array, \<open>spendOutput\<close> fails with the
  runtime's TypeError, before the address and signature checks; it returns no
  amount.
\<close>

theorem spendOutput_out_of_range:
  "txID inp = id_tx this \<Longrightarrow> length (outputs this) \<le> outputIndex inp \<Longrightarrow>
   spendOutput calcAddress verifySignature this inp = Inl TypeError"
  by (simp add: spendOutput_def js_index_def)

theorem spendOutput_out_of_range_witness:
  "txID \<lparr>txID = ''T1'', outputIndex = 5, pubKey = ''K'', sig = ''sig:K:addr:K''\<rparr>
     = id_tx \<lparr>inputs = [], outputs = [\<lparr>amount = Num 30, address = ''addr:K''\<rparr>], id_tx = ''T1''\<rparr>
   \<and> length (outputs \<lparr>inputs = [], outputs = [\<lparr>amount = Num 30, address = ''addr:K''\<rparr>], id_tx = ''T1''\<rparr>)
     \<le> outputIndex \<lparr>txID = ''T1'', outputIndex = 5, pubKey = ''K'', sig = ''sig:K:addr:K''\<rparr>
   \<and> spendOutput demo_calcAddress demo_verifySignature
     \<lparr>inputs = [], outputs = [\<lparr>amount = Num 30, address = ''addr:K''\<rparr>], id_tx = ''T1''\<rparr>
     \<lparr>txID = ''T1'', outputIndex = 5, pubKey = ''K'', sig = ''sig:K:addr:K''\<rparr>
     = Inl TypeError"
  using spendOutput_out_of_range
    [of "\<lparr>txID = ''T1'', outputIndex = 5, pubKey = ''K'', sig = ''sig:K:addr:K''\<rparr>"
        "\<lparr>inputs = [], outputs = [\<lparr>amount = Num 30, address = ''addr:K''\<rparr>], id_tx = ''T1''\<rparr>"
        demo_calcAddress demo_verifySignature]
  by simp







text \<open>
  C10. The result of \<open>isValid\<close> depends only on the \<open>(pubKey, sig)\<close> pairs of the
  inputs and on the multiset of the outputs stored under any key of \<open>utxos\<close>: two
  runs that agree on both return the same boolean, whatever the \<open>txID\<close> and
  \<open>outputIndex\<close> of the inputs, the keys of \<open>utxos\<close> and the transactions' own
  outputs and ids are.
\<close>

theorem isValid_depends_only_on_keys_and_stored_outputs:
  "map (\<lambda>inp. (pubKey inp, sig inp)) (inputs this1) =
     map (\<lambda>inp. (pubKey inp, sig inp)) (inputs this2) \<Longrightarrow>
   mset (concat (map snd utxos1)) = mset (concat (map snd utxos2)) \<Longrightarrow>
   isValid verifySignature this1 utxos1 = isValid verifySignature this2 utxos2"
proof -
  assume ins: "map (\<lambda>inp. (pubKey inp, sig inp)) (inputs this1) =
     map (\<lambda>inp. (pubKey inp, sig inp)) (inputs this2)"
  assume stored: "mset (concat (map snd utxos1)) = mset (concat (map snd utxos2))"
  have same_set: "set (concat (map snd utxos1)) = set (concat (map snd utxos2))"
    using stored by (rule mset_eq_setD)
  have pairs: "isValid verifySignature this utxos =
      (\<exists>p \<in> set (map (\<lambda>inp. (pubKey inp, sig inp)) (inputs this)).
         \<exists>obj \<in> set (concat (map snd utxos)). verifySignature (fst p) obj (snd p))"
    for this utxos
    unfolding isValid_iff by (simp add: Bex_def)
  show ?thesis
    unfolding pairs ins same_set ..
qed

theorem isValid_depends_only_on_keys_and_stored_outputs_witness:
  "map (\<lambda>inp. (pubKey inp, sig inp))
      (inputs \<lparr>inputs = [\<lparr>txID = ''T1'', outputIndex = 0, pubKey = ''K'', sig = ''sig:K:addr:K''\<rparr>],
               outputs = [\<lparr>amount = Num 25, address = ''addr:L''\<rparr>], id_tx = ''T2''\<rparr>)
     = map (\<lambda>inp. (pubKey inp, sig inp))
      (inputs \<lparr>inputs = [\<lparr>txID = ''T9'', outputIndex = 7, pubKey = ''K'', sig = ''sig:K:addr:K''\<rparr>],
               outputs = [], id_tx = ''T3''\<rparr>)
   \<and> mset (concat (map snd
        [(''T1'', [\<lparr>amount = Num 30, address = ''addr:K''\<rparr>, \<lparr>amount = Num 5, address = ''addr:L''\<rparr>])]))
     = mset (concat (map snd
        [(''Ta'', [\<lparr>amount = Num 5, address = ''addr:L''\<rparr>]),
         (''Tb'', [\<lparr>amount = Num 30, address = ''addr:K''\<rparr>])]))
   \<and> isValid demo_verifySignature
        \<lparr>inputs = [\<lparr>txID = ''T1'', outputIndex = 0, pubKey = ''K'', sig = ''sig:K:addr:K''\<rparr>],
         outputs = [\<lparr>amount = Num 25, address = ''addr:L''\<rparr>], id_tx = ''T2''\<rparr>
        [(''T1'', [\<lparr>amount = Num 30, address = ''addr:K''\<rparr>, \<lparr>amount = Num 5, address = ''addr:L''\<rparr>])]
     = isValid demo_verifySignature
        \<lparr>inputs = [\<lparr>txID = ''T9'', outputIndex = 7, pubKey = ''K'', sig = ''sig:K:addr:K''\<rparr>],
         outputs = [], id_tx = ''T3''\<rparr>
        [(''Ta'', [\<lparr>amount = Num 5, address = ''addr:L''\<rparr>]),
         (''Tb'', [\<lparr>amount = Num 30, address = ''addr:K''\<rparr>])]
   \<and> isValid demo_verifySignature
        \<lparr>inputs = [\<lparr>txID = ''T9'', outputIndex = 7, pubKey = ''K'', sig = ''sig:K:addr:K''\<rparr>],
         outputs = [], id_tx = ''T3''\<rparr>
        [(''Ta'', [\<lparr>amount = Num 5, address = ''addr:L''\<rparr>]),
         (''Tb'', [\<lparr>amount = Num 30, address = ''addr:K''\<rparr>])] = True"
  using isValid_depends_only_on_keys_and_stored_outputs
    [of "\<lparr>inputs = [\<lparr>txID = ''T1'', outputIndex = 0, pubKey = ''K'', sig = ''sig:K:addr:K''\<rparr>],
          outputs = [\<lparr>amount = Num 25, address = ''addr:L''\<rparr>], id_tx = ''T2''\<rparr>"
        "\<lparr>inputs = [\<lparr>txID = ''T9'', outputIndex = 7, pubKey = ''K'', sig = ''sig:K:addr:K''\<rparr>],
          outputs = [], id_tx = ''T3''\<rparr>"
        "[(''T1'', [\<lparr>amount = Num 30, address = ''addr:K''\<rparr>, \<lparr>amount = Num 5, address = ''addr:L''\<rparr>])]"
        "[(''Ta'', [\<lparr>amount = Num 5, address = ''addr:L''\<rparr>]),
          (''Tb'', [\<lparr>amount = Num 30, address = ''addr:K''\<rparr>])]"
        demo_verifySignature]
  by (simp add: isValid_def demo_verifySignature_def)

text \<open>
  C1. The claim: \<open>isValid\<close> holds exactly when every input passes the lookup,
  address and signature checks against the output at its own
  \<open>(txID, outputIndex)\<close> and the matched amounts cover \<open>totalOutput\<close>. The source
  never compares amounts. Here the single input validly spends output 0 of
  transaction \<open>T1\<close> (\<open>spendOutput\<close> on that transaction returns its amount, 10),
  the transaction pays out 20, and \<open>isValid\<close> returns true.
\<close>

theorem isValid_accepts_insufficient_funds:
  "isValid demo_verifySignature
     \<lparr>inputs = [\<lparr>txID = ''T1'', outputIndex = 0, pubKey = ''K'', sig = ''sig:K:addr:K''\<rparr>],
      outputs = [\<lparr>amount = Num 20, address = ''addr:L''\<rparr>], id_tx = ''T2''\<rparr>
     [(''T1'', [\<lparr>amount = Num 10, address = ''addr:K''\<rparr>])] = True
   \<and> spendOutput demo_calcAddress demo_verifySignature
     \<lparr>inputs = [], outputs = [\<lparr>amount = Num 10, address = ''addr:K''\<rparr>], id_tx = ''T1''\<rparr>
     \<lparr>txID = ''T1'', outputIndex = 0, pubKey = ''K'', sig = ''sig:K:addr:K''\<rparr> = Inr (Num 10)
   \<and> totalOutput
     \<lparr>inputs = [\<lparr>txID = ''T1'', outputIndex = 0, pubKey = ''K'', sig = ''sig:K:addr:K''\<rparr>],
      outputs = [\<lparr>amount = Num 20, address = ''addr:L''\<rparr>], id_tx = ''T2''\<rparr> = Num 20"
  by (simp add: isValid_def spendOutput_def js_index_def totalOutput_def
      js_add_exact demo_calcAddress_def demo_verifySignature_def)

text \<open>
  C3. The claim: if the \<open>txID\<close> of some input is not a key of \<open>utxos\<close>, \<open>isValid\<close>
  returns false. The source never looks the \<open>txID\<close> up: it tries the signature
  against every output stored under every key. Here the only input names \<open>T9\<close>,
  \<open>utxos\<close> has the single key \<open>T1\<close>, and \<open>isValid\<close> returns true.
\<close>

theorem isValid_accepts_missing_utxo:
  "isValid demo_verifySignature
     \<lparr>inputs = [\<lparr>txID = ''T9'', outputIndex = 0, pubKey = ''K'', sig = ''sig:K:addr:K''\<rparr>],
      outputs = [\<lparr>amount = Num 25, address = ''addr:L''\<rparr>], id_tx = ''T2''\<rparr>
     [(''T1'', [\<lparr>amount = Num 30, address = ''addr:K''\<rparr>])] = True
   \<and> map_of [(''T1'', [\<lparr>amount = Num 30, address = ''addr:K''\<rparr>])] ''T9'' = None"
  by (simp add: isValid_def demo_verifySignature_def)

text \<open>
  C2. The claim as written: a transaction with two inputs that reference the same
  \<open>(txID, outputIndex)\<close> is rejected by \<open>isValid\<close> for every UTXO index. The source
  keeps no record of the references it has seen. Here both inputs reference
  output 0 of \<open>T1\<close>, whose amount 30 covers the 25 paid out, and \<open>isValid\<close> returns
  true.
\<close>

theorem isValid_duplicate_reference_counterexample:
  "isValid demo_verifySignature
     \<lparr>inputs = [\<lparr>txID = ''T1'', outputIndex = 0, pubKey = ''K'', sig = ''sig:K:addr:K''\<rparr>,
                \<lparr>txID = ''T1'', outputIndex = 0, pubKey = ''K'', sig = ''sig:K:addr:K''\<rparr>],
      outputs = [\<lparr>amount = Num 25, address = ''addr:L''\<rparr>], id_tx = ''T2''\<rparr>
     [(''T1'', [\<lparr>amount = Num 30, address = ''addr:K''\<rparr>])] = True
   \<and> \<not> distinct (map (\<lambda>inp. (txID inp, outputIndex inp))
       [\<lparr>txID = ''T1'', outputIndex = 0, pubKey = ''K'', sig = ''sig:K:addr:K''\<rparr>,
        \<lparr>txID = ''T1'', outputIndex = 0, pubKey = ''K'', sig = ''sig:K:addr:K''\<rparr>])"
  by (simp add: isValid_def demo_verifySignature_def)

text \<open>
  C2, amended. A transaction with two inputs that reference the same
  \<open>(txID, outputIndex)\<close> is rejected by \<open>isValid\<close> whenever no input's signature
  verifies against any output stored in \<open>utxos\<close>; the repeated reference is not
  by itself a reason for rejection.
\<close>

theorem isValid_duplicate_reference:
  "\<not> distinct (map (\<lambda>inp. (txID inp, outputIndex inp)) (inputs this)) \<Longrightarrow>
   \<forall>inp \<in> set (inputs this). \<forall>obj \<in> set (concat (map snd utxos)).
      \<not> verifySignature (pubKey inp) obj (sig inp) \<Longrightarrow>
   isValid verifySignature this utxos = False"
  by (simp add: isValid_iff)

theorem isValid_duplicate_reference_witness:
  "\<not> distinct (map (\<lambda>inp. (txID inp, outputIndex inp))
      (inputs \<lparr>inputs = [\<lparr>txID = ''T1'', outputIndex = 0, pubKey = ''K'', sig = ''forged''\<rparr>,
                         \<lparr>txID = ''T1'', outputIndex = 0, pubKey = ''K'', sig = ''forged''\<rparr>],
               outputs = [\<lparr>amount = Num 25, address = ''addr:L''\<rparr>], id_tx = ''T2''\<rparr>))
   \<and> isValid demo_verifySignature
       \<lparr>inputs = [\<lparr>txID = ''T1'', outputIndex = 0, pubKey = ''K'', sig = ''forged''\<rparr>,
                  \<lparr>txID = ''T1'', outputIndex = 0, pubKey = ''K'', sig = ''forged''\<rparr>],
        outputs = [\<lparr>amount = Num 25, address = ''addr:L''\<rparr>], id_tx = ''T2''\<rparr>
       [(''T1'', [\<lparr>amount = Num 30, address = ''addr:K''\<rparr>])] = False"
  using isValid_duplicate_reference
    [of "\<lparr>inputs = [\<lparr>txID = ''T1'', outputIndex = 0, pubKey = ''K'', sig = ''forged''\<rparr>,
                    \<lparr>txID = ''T1'', outputIndex = 0, pubKey = ''K'', sig = ''forged''\<rparr>],
          outputs = [\<lparr>amount = Num 25, address = ''addr:L''\<rparr>], id_tx = ''T2''\<rparr>"
        "[(''T1'', [\<lparr>amount = Num 30, address = ''addr:K''\<rparr>])]" demo_verifySignature]
  by (simp add: demo_verifySignature_def)

end
